theory Spec2Isabelle
  imports Main "HOL-Library.Word"
begin

unbundle bit_operations_syntax

section \<open>The K1 message layer of the VMC96 board API (vmc96api.c)\<close>

text \<open>
  A shallow embedding of \<^verbatim>\<open>src/vmc96api.c\<close>. Every C function is a HOL function of the
  same name that takes the session and returns the return code together with the session
  it leaves behind. An \<^verbatim>\<open>unsigned char\<close> is an 8-bit word; an array is a list whose length
  is the declared size; an access outside an array (undefined behaviour in C) is the
  result \<open>None\<close>.
\<close>

subsection \<open>Data\<close>

type_synonym u8 = "8 word"

text \<open>
  What the file under \<^verbatim>\<open>src/\<close> leaves open. The header \<^verbatim>\<open>vmc96.h\<close> with the two
  array bounds is not part of the sources, so the bounds are parameters. Whether plain
  \<^verbatim>\<open>char\<close> is signed is fixed by the C implementation (signed on x86 Linux, unsigned on
  ARM Linux); \<^verbatim>\<open>vmc96_calculate_checksum\<close> returns a plain \<^verbatim>\<open>char\<close>.
\<close>

record platform =
  CHAR_IS_SIGNED :: bool
  VMC96_MOTOR_ARRAY_ROWS_COUNT :: int
  VMC96_MOTOR_ARRAY_COLUMNS_COUNT :: int

text \<open>The return codes named in \<^verbatim>\<open>vmc96_get_error_code_string\<close> (an enum of the header).\<close>

datatype VMC96_code =
    VMC96_SUCCESS
  | VMC96_ERROR_OUT_OF_MEMORY
  | VMC96_ERROR_FTDI_INITIALIZE
  | VMC96_ERROR_FTDI_SET_INTERFACE
  | VMC96_ERROR_FTDI_OPEN_USB_DEVICE
  | VMC96_ERROR_FTDI_RESET_USB
  | VMC96_ERROR_FTDI_SET_BAUDRATE
  | VMC96_ERROR_FTDI_SET_LINE_PROPS
  | VMC96_ERROR_FTDI_SET_NO_FLOW
  | VMC96_ERROR_FTDI_WRITE_DATA
  | VMC96_ERROR_FTDI_READ_DATA
  | VMC96_ERROR_FTDI_PURGE_BUFFERS
  | VMC96_ERROR_RESPONSE_INVALID_CHECKSUM
  | VMC96_ERROR_RESPONSE_NEGATIVE_ACK
  | VMC96_ERROR_RESPONSE_MALFORMED
  | VMC96_ERROR_RESPONSE_INVALID_SOURCE
  | VMC96_ERROR_RESPONSE_INVALID_LENGTH
  | VMC96_ERROR_INVALID_MOTOR_COORDINATES

definition VMC96_MESSAGE_STX :: u8 where "VMC96_MESSAGE_STX = 0x35"
definition VMC96_MESSAGE_MAX_LEN :: nat where "VMC96_MESSAGE_MAX_LEN = 255"
definition VMC96_MESSAGE_DATA_MAX_LEN :: nat where "VMC96_MESSAGE_DATA_MAX_LEN = 250"
definition VMC96_MOTOR_MAX_CURRENT_READING_MA :: int where
  "VMC96_MOTOR_MAX_CURRENT_READING_MA = 500"

definition VMC96_CONTROLLER_GLOBAL_BROADCAST :: u8 where
  "VMC96_CONTROLLER_GLOBAL_BROADCAST = 0x00"
definition VMC96_CONTROLLER_RELAY_BASE_ADDRESS :: u8 where
  "VMC96_CONTROLLER_RELAY_BASE_ADDRESS = 0x26"
definition VMC96_CONTROLLER_RELAY_1 :: u8 where "VMC96_CONTROLLER_RELAY_1 = 0x26"
definition VMC96_CONTROLLER_RELAY_2 :: u8 where "VMC96_CONTROLLER_RELAY_2 = 0x27"
definition VMC96_CONTROLLER_MOTOR_ARRAY :: u8 where "VMC96_CONTROLLER_MOTOR_ARRAY = 0x30"

definition VMC96_COMMAND_SIMPLE_PING :: u8 where "VMC96_COMMAND_SIMPLE_PING = 0x00"
definition VMC96_COMMAND_GLOBAL_RESET :: u8 where "VMC96_COMMAND_GLOBAL_RESET = 0x01"
definition VMC96_COMMAND_KERNEL_VERSION :: u8 where "VMC96_COMMAND_KERNEL_VERSION = 0x02"
definition VMC96_COMMAND_RESET :: u8 where "VMC96_COMMAND_RESET = 0x05"
definition VMC96_COMMAND_MOTOR_STATUS_REQUEST :: u8 where
  "VMC96_COMMAND_MOTOR_STATUS_REQUEST = 0x10"
definition VMC96_COMMAND_MOTOR_STOP_ALL :: u8 where "VMC96_COMMAND_MOTOR_STOP_ALL = 0x12"
definition VMC96_COMMAND_MOTOR_RUN :: u8 where "VMC96_COMMAND_MOTOR_RUN = 0x13"
definition VMC96_COMMAND_MOTOR_OPTO_LINE_STATUS :: u8 where
  "VMC96_COMMAND_MOTOR_OPTO_LINE_STATUS = 0x15"
definition VMC96_COMMAND_RELAY_FUNCTION :: u8 where "VMC96_COMMAND_RELAY_FUNCTION = 0x11"

text \<open>
  \<^verbatim>\<open>struct vmc96_message_s\<close>: \<open>data\<close> is \<^verbatim>\<open>unsigned char data[250]\<close>, \<open>raw\<close> is
  \<^verbatim>\<open>unsigned char raw[255]\<close>.
\<close>

record vmc96_message_t =
  id_controller :: u8
  command :: u8
  data :: "u8 list"
  data_length :: u8
  raw :: "u8 list"
  raw_length :: u8

text \<open>
  libftdi is an external library. Its handle is modelled by what the three calls of one
  exchange will answer (\<open>purge_ret\<close>, \<open>write_ret\<close>, and \<open>rx\<close>: the bytes waiting in
  the receive buffer, \<open>None\<close> when the read fails) and by the log of the calls made.
\<close>

datatype ftdi_call = Purge | Write "u8 list" | Read nat

record ftdi_context =
  purge_ret :: int
  write_ret :: int
  rx :: "u8 list option"
  calls :: "ftdi_call list"

record VMC96_t =
  ftdi :: ftdi_context
  message :: vmc96_message_t
  response :: vmc96_message_t

text \<open>The arrays of a session have their declared sizes.\<close>

definition VMC96_wf :: "VMC96_t \<Rightarrow> bool" where
  "VMC96_wf s \<longleftrightarrow>
     length (data (message s)) = VMC96_MESSAGE_DATA_MAX_LEN \<and>
     length (raw (message s)) = VMC96_MESSAGE_MAX_LEN \<and>
     length (data (response s)) = VMC96_MESSAGE_DATA_MAX_LEN \<and>
     length (raw (response s)) = VMC96_MESSAGE_MAX_LEN"

subsection \<open>Memory access\<close>

text \<open>
  \<open>memcpy dst d src s n\<close> is \<^verbatim>\<open>memcpy(&dst[d], &src[s], n)\<close> and gives the new
  contents of \<open>dst\<close>; \<open>store\<close> is \<^verbatim>\<open>xs[i] = v\<close> and \<open>load\<close> is \<^verbatim>\<open>xs[i]\<close>.
  Each is \<open>None\<close> when it leaves its array.
\<close>

definition memcpy :: "'a list \<Rightarrow> nat \<Rightarrow> 'a list \<Rightarrow> nat \<Rightarrow> nat \<Rightarrow> 'a list option" where
  "memcpy dst d src s n =
     (if d + n \<le> length dst \<and> s + n \<le> length src
      then Some (take d dst @ take n (drop s src) @ drop (d + n) dst)
      else None)"

definition store :: "'a list \<Rightarrow> nat \<Rightarrow> 'a \<Rightarrow> 'a list option" where
  "store xs i v = (if i < length xs then Some (xs[i := v]) else None)"

definition load :: "'a list \<Rightarrow> nat \<Rightarrow> 'a option" where
  "load xs i = (if i < length xs then Some (xs ! i) else None)"

subsection \<open>Helper macros\<close>

text \<open>
  The macros compute in \<^verbatim>\<open>int\<close> on promoted \<^verbatim>\<open>unsigned char\<close> arguments.
  \<open>VMC96_GET_MOTOR_ID\<close> is given as it is used: assigned to an \<^verbatim>\<open>unsigned char\<close>.
\<close>

definition VMC96_GET_MOTOR_ID :: "u8 \<Rightarrow> u8 \<Rightarrow> u8" where
  "VMC96_GET_MOTOR_ID r c = word_of_int (push_bit 4 (uint r + 1) + (uint c + 1))"

definition VMC96_GET_MOTOR_ROW :: "u8 \<Rightarrow> int" where
  "VMC96_GET_MOTOR_ROW mid = drop_bit 4 (uint mid AND 0xF0) - 1"

definition VMC96_GET_MOTOR_COL :: "u8 \<Rightarrow> int" where
  "VMC96_GET_MOTOR_COL mid = (uint mid AND 0x0F) - 1"

definition VMC96_GET_MOTOR_CURRENT_MA :: "u8 \<Rightarrow> int" where
  "VMC96_GET_MOTOR_CURRENT_MA val = (VMC96_MOTOR_MAX_CURRENT_READING_MA * uint val) div 255"

definition VMC96_VALIDATE_MOTOR_COORDINATE :: "platform \<Rightarrow> u8 \<Rightarrow> u8 \<Rightarrow> bool" where
  "VMC96_VALIDATE_MOTOR_COORDINATE pf r c \<longleftrightarrow>
     uint r < VMC96_MOTOR_ARRAY_ROWS_COUNT pf \<and> uint c < VMC96_MOTOR_ARRAY_COLUMNS_COUNT pf"

subsection \<open>Message control functions\<close>

text \<open>
  \<^verbatim>\<open>vmc96_calculate_checksum\<close>: the accumulator \<^verbatim>\<open>char sum\<close> holds eight bits, each
  round xors one byte of the buffer into it. The function returns a \<^verbatim>\<open>char\<close>; its value
  as the caller reads it (after integer promotion) is signed or unsigned with the platform.
\<close>

fun xor_loop :: "u8 \<Rightarrow> u8 list \<Rightarrow> u8" where
  "xor_loop sm [] = sm"
| "xor_loop sm (b # bs) = xor_loop (sm XOR b) bs"

definition char_value :: "platform \<Rightarrow> u8 \<Rightarrow> int" where
  "char_value pf w = (if CHAR_IS_SIGNED pf then sint w else uint w)"

definition vmc96_calculate_checksum :: "platform \<Rightarrow> u8 list \<Rightarrow> nat \<Rightarrow> int" where
  "vmc96_calculate_checksum pf buf buflen = char_value pf (xor_loop 0 (take buflen buf))"

text \<open>
  \<^verbatim>\<open>vmc96_prepare_raw_message\<close>. The length byte is \<^verbatim>\<open>data_length + 5\<close> stored in an
  \<^verbatim>\<open>unsigned char\<close>; the checksum is converted to \<^verbatim>\<open>unsigned char\<close> by the assignment.
\<close>

definition vmc96_prepare_raw_message :: "platform \<Rightarrow> VMC96_t \<Rightarrow> (VMC96_code \<times> VMC96_t) option" where
  "vmc96_prepare_raw_message pf s =
     (let m = message s;
          len = data_length m + 5;
          r0 = (raw m)[0 := VMC96_MESSAGE_STX, 1 := id_controller m, 2 := len, 3 := command m]
      in case (if unat (data_length m) > 0
               then memcpy r0 4 (data m) 0 (unat (data_length m)) else Some r0) of
           None \<Rightarrow> None
         | Some r1 \<Rightarrow>
             if unat len = 0 then None
             else (case store r1 (unat len - 1)
                          (word_of_int (vmc96_calculate_checksum pf r1 (unat len - 1))) of
                     None \<Rightarrow> None
                   | Some r2 \<Rightarrow>
                       Some (VMC96_SUCCESS, s\<lparr>message := m\<lparr>raw_length := len, raw := r2\<rparr>\<rparr>)))"

text \<open>\<^verbatim>\<open>vmc96_parse_raw_response\<close>, the switch on the address the request went to.\<close>

definition vmc96_parse_raw_response :: "platform \<Rightarrow> VMC96_t \<Rightarrow> (VMC96_code \<times> VMC96_t) option" where
  "vmc96_parse_raw_response pf s =
     (let r = response s in
      if id_controller (message s) = VMC96_CONTROLLER_GLOBAL_BROADCAST then
        if unat (raw_length r) \<le> 0 then Some (VMC96_ERROR_RESPONSE_INVALID_LENGTH, s)
        else (case memcpy (data r) 0 (raw r) 0 (unat (raw_length r)) of
                None \<Rightarrow> None
              | Some d \<Rightarrow>
                  Some (VMC96_SUCCESS, s\<lparr>response := r\<lparr>data_length := raw_length r, data := d\<rparr>\<rparr>))
      else if id_controller (message s) = VMC96_CONTROLLER_RELAY_1
            \<or> id_controller (message s) = VMC96_CONTROLLER_RELAY_2
            \<or> id_controller (message s) = VMC96_CONTROLLER_MOTOR_ARRAY then
        if unat (raw_length r) < 5 then Some (VMC96_ERROR_RESPONSE_INVALID_LENGTH, s)
        else
          (let dl = raw r ! 2 - 4 in
           case memcpy (data r) 0 (raw r) 3 (unat dl) of
             None \<Rightarrow> None
           | Some d \<Rightarrow>
               (let s' = s\<lparr>response := r\<lparr>id_controller := raw r ! 1, data_length := dl, data := d\<rparr>\<rparr>
                in if raw r ! 0 \<noteq> VMC96_MESSAGE_STX then
                     Some (VMC96_ERROR_RESPONSE_MALFORMED, s')
                   else if raw r ! 1 \<noteq> id_controller (message s) then
                     Some (VMC96_ERROR_RESPONSE_INVALID_SOURCE, s')
                   else if raw r ! 2 \<noteq> raw_length r then
                     Some (VMC96_ERROR_RESPONSE_INVALID_LENGTH, s')
                   else if uint (raw r ! (unat (raw_length r) - 1))
                           \<noteq> vmc96_calculate_checksum pf (raw r) (unat (raw_length r) - 1) then
                     Some (VMC96_ERROR_RESPONSE_INVALID_CHECKSUM, s')
                   else Some (VMC96_SUCCESS, s')))
      else Some (VMC96_SUCCESS, s))"

text \<open>
  The three libftdi calls. \<^verbatim>\<open>ftdi_read_data\<close> delivers at most \<open>sz\<close> of the waiting
  bytes at the start of the buffer and returns their number, or a negative code.
\<close>

definition ftdi_usb_purge_buffers :: "ftdi_context \<Rightarrow> int \<times> ftdi_context" where
  "ftdi_usb_purge_buffers f = (purge_ret f, f\<lparr>calls := calls f @ [Purge]\<rparr>)"

definition ftdi_write_data :: "ftdi_context \<Rightarrow> u8 list \<Rightarrow> nat \<Rightarrow> int \<times> ftdi_context" where
  "ftdi_write_data f buf sz = (write_ret f, f\<lparr>calls := calls f @ [Write (take sz buf)]\<rparr>)"

definition ftdi_read_data :: "ftdi_context \<Rightarrow> u8 list \<Rightarrow> nat \<Rightarrow> int \<times> u8 list \<times> ftdi_context" where
  "ftdi_read_data f buf sz =
     (let f' = f\<lparr>calls := calls f @ [Read sz]\<rparr> in
      case rx f of
        None \<Rightarrow> (- 1, buf, f')
      | Some bs \<Rightarrow>
          (let got = take sz bs in (int (length got), got @ drop (length got) buf, f')))"

text \<open>\<^verbatim>\<open>vmc96_send_raw_message\<close> (the fixed delay before the read is not modelled).\<close>

definition vmc96_send_raw_message :: "VMC96_t \<Rightarrow> VMC96_code \<times> VMC96_t" where
  "vmc96_send_raw_message s =
     (let (ret, f1) = ftdi_usb_purge_buffers (ftdi s); s1 = s\<lparr>ftdi := f1\<rparr> in
      if ret < 0 then (VMC96_ERROR_FTDI_PURGE_BUFFERS, s1)
      else
        (let (ret, f2) = ftdi_write_data (ftdi s1) (raw (message s1))
                           (unat (raw_length (message s1)));
             s2 = s1\<lparr>ftdi := f2\<rparr>
         in if ret < 0 then (VMC96_ERROR_FTDI_WRITE_DATA, s2)
            else
              (let (ret, buf, f3) = ftdi_read_data (ftdi s2) (raw (response s2))
                                      VMC96_MESSAGE_MAX_LEN;
                   s3 = s2\<lparr>ftdi := f3, response := (response s2)\<lparr>raw := buf\<rparr>\<rparr>
               in if ret < 0 then (VMC96_ERROR_FTDI_READ_DATA, s3)
                  else (VMC96_SUCCESS,
                        s3\<lparr>response := (response s3)\<lparr>raw_length := word_of_int ret\<rparr>\<rparr>))))"

text \<open>
  \<^verbatim>\<open>vmc96_send_message_ex\<close>; \<open>dat\<close> is the caller's array, \<open>None\<close> for a \<^verbatim>\<open>NULL\<close>
  pointer. The debug dump prints nothing unless compiled for debugging.
\<close>

definition vmc96_send_message_ex ::
  "platform \<Rightarrow> VMC96_t \<Rightarrow> u8 \<Rightarrow> u8 \<Rightarrow> u8 list option \<Rightarrow> u8 \<Rightarrow> (VMC96_code \<times> VMC96_t) option" where
  "vmc96_send_message_ex pf s id_cntlr cmd dat datalen =
     (let m0 = (message s)\<lparr>id_controller := id_cntlr, command := cmd\<rparr> in
      case (case dat of
              Some d \<Rightarrow>
                if unat datalen > 0
                then map_option (\<lambda>b. m0\<lparr>data := b, data_length := datalen\<rparr>)
                       (memcpy (data m0) 0 d 0 (unat datalen))
                else Some (m0\<lparr>data := replicate VMC96_MESSAGE_DATA_MAX_LEN 0, data_length := 0\<rparr>)
            | None \<Rightarrow>
                Some (m0\<lparr>data := replicate VMC96_MESSAGE_DATA_MAX_LEN 0, data_length := 0\<rparr>)) of
        None \<Rightarrow> None
      | Some m1 \<Rightarrow>
          (case vmc96_prepare_raw_message pf (s\<lparr>message := m1\<rparr>) of
             None \<Rightarrow> None
           | Some (ret, s1) \<Rightarrow>
               if ret \<noteq> VMC96_SUCCESS then Some (ret, s1)
               else (case vmc96_send_raw_message s1 of
                       (ret, s2) \<Rightarrow>
                         if ret \<noteq> VMC96_SUCCESS then Some (ret, s2)
                         else vmc96_parse_raw_response pf s2)))"

definition vmc96_send_message ::
  "platform \<Rightarrow> VMC96_t \<Rightarrow> u8 \<Rightarrow> u8 \<Rightarrow> (VMC96_code \<times> VMC96_t) option" where
  "vmc96_send_message pf s id_cntlr cmd = vmc96_send_message_ex pf s id_cntlr cmd None 0"

subsection \<open>General purpose relays\<close>

text \<open>
  The address \<^verbatim>\<open>VMC96_CONTROLLER_RELAY_BASE_ADDRESS + id\<close> is passed as an
  \<^verbatim>\<open>unsigned char\<close> argument, so it is taken modulo 256 (\<open>rid\<close> is the
  parameter \<^verbatim>\<open>id\<close>).
\<close>

definition vmc96_relay_ping :: "platform \<Rightarrow> VMC96_t \<Rightarrow> u8 \<Rightarrow> (VMC96_code \<times> VMC96_t) option" where
  "vmc96_relay_ping pf s rid =
     vmc96_send_message pf s (VMC96_CONTROLLER_RELAY_BASE_ADDRESS + rid) VMC96_COMMAND_SIMPLE_PING"

text \<open>
  The lines of \<^verbatim>\<open>vmc96_relay_get_version\<close> and \<^verbatim>\<open>vmc96_motor_get_version\<close> after the
  check of the return code, the same in both. \<open>version\<close> is the caller's array.
\<close>

definition copy_version :: "vmc96_message_t \<Rightarrow> u8 list \<Rightarrow> u8 list option" where
  "copy_version r version =
     (case store version 0 0 of
        None \<Rightarrow> None
      | Some v0 \<Rightarrow>
          if unat (data_length r) > 0 then
            (case memcpy v0 0 (data r) 1 (unat (data_length r) - 1) of
               None \<Rightarrow> None
             | Some v1 \<Rightarrow> store v1 (unat (data_length r) - 1) 0)
          else Some v0)"

definition vmc96_relay_get_version ::
  "platform \<Rightarrow> VMC96_t \<Rightarrow> u8 \<Rightarrow> u8 list \<Rightarrow> (VMC96_code \<times> VMC96_t \<times> u8 list) option" where
  "vmc96_relay_get_version pf s rid version =
     (case vmc96_send_message pf s (VMC96_CONTROLLER_RELAY_BASE_ADDRESS + rid)
             VMC96_COMMAND_KERNEL_VERSION of
        None \<Rightarrow> None
      | Some (ret, s') \<Rightarrow>
          if ret \<noteq> VMC96_SUCCESS then Some (ret, s', version)
          else map_option (\<lambda>v. (VMC96_SUCCESS, s', v)) (copy_version (response s') version))"

definition vmc96_relay_reset :: "platform \<Rightarrow> VMC96_t \<Rightarrow> u8 \<Rightarrow> (VMC96_code \<times> VMC96_t) option" where
  "vmc96_relay_reset pf s rid =
     vmc96_send_message pf s (VMC96_CONTROLLER_RELAY_BASE_ADDRESS + rid) VMC96_COMMAND_RESET"

definition vmc96_relay_control ::
  "platform \<Rightarrow> VMC96_t \<Rightarrow> u8 \<Rightarrow> bool \<Rightarrow> (VMC96_code \<times> VMC96_t) option" where
  "vmc96_relay_control pf s rid state =
     (let dat = (if state = True then 1 else 0) in
      vmc96_send_message_ex pf s (VMC96_CONTROLLER_RELAY_BASE_ADDRESS + rid)
        VMC96_COMMAND_RELAY_FUNCTION (Some [dat]) 1)"

subsection \<open>Motor array\<close>

text \<open>
  Modelled from the spec: the declaration of \<^verbatim>\<open>VMC96_motor_array_status_t\<close> is in the
  absent header. The spec gives a motor position as \<open>{row: integer, col: integer}\<close> and the
  status as the current in milliamps with the sequence of active motors; the code
  writes the fields \<^verbatim>\<open>motors[i].row\<close>, \<^verbatim>\<open>motors[i].col\<close>, \<^verbatim>\<open>active_count\<close> and
  \<^verbatim>\<open>current_ma\<close>. The array \<open>motors\<close> has the size the caller's struct has.
\<close>

record VMC96_motor_t =
  row :: int
  col :: int

record VMC96_motor_array_status_t =
  motors :: "VMC96_motor_t list"
  active_count :: int
  current_ma :: int

text \<open>\<^verbatim>\<open>memset( status, 0, sizeof(VMC96_motor_array_status_t) )\<close>\<close>

definition memset_status :: "VMC96_motor_array_status_t \<Rightarrow> VMC96_motor_array_status_t" where
  "memset_status status =
     \<lparr>motors = replicate (length (motors status)) \<lparr>row = 0, col = 0\<rparr>,
      active_count = 0, current_ma = 0\<rparr>"

definition vmc96_motor_ping :: "platform \<Rightarrow> VMC96_t \<Rightarrow> (VMC96_code \<times> VMC96_t) option" where
  "vmc96_motor_ping pf s =
     vmc96_send_message pf s VMC96_CONTROLLER_MOTOR_ARRAY VMC96_COMMAND_SIMPLE_PING"

definition vmc96_motor_get_version ::
  "platform \<Rightarrow> VMC96_t \<Rightarrow> u8 list \<Rightarrow> (VMC96_code \<times> VMC96_t \<times> u8 list) option" where
  "vmc96_motor_get_version pf s version =
     (case vmc96_send_message pf s VMC96_CONTROLLER_MOTOR_ARRAY VMC96_COMMAND_KERNEL_VERSION of
        None \<Rightarrow> None
      | Some (ret, s') \<Rightarrow>
          if ret \<noteq> VMC96_SUCCESS then Some (ret, s', version)
          else map_option (\<lambda>v. (VMC96_SUCCESS, s', v)) (copy_version (response s') version))"

definition vmc96_motor_reset :: "platform \<Rightarrow> VMC96_t \<Rightarrow> (VMC96_code \<times> VMC96_t) option" where
  "vmc96_motor_reset pf s =
     vmc96_send_message pf s VMC96_CONTROLLER_MOTOR_ARRAY VMC96_COMMAND_RESET"

text \<open>
  In the functions of the motor array, \<open>r\<close> and \<open>c\<close> are the parameters \<^verbatim>\<open>row\<close> and
  \<^verbatim>\<open>col\<close>, and \<open>dat\<close> is the local \<^verbatim>\<open>data\<close> (the source's names are those of record
  fields here).
\<close>

text \<open>
  The loop of \<^verbatim>\<open>vmc96_motor_get_status\<close>: round \<open>i\<close> reads \<^verbatim>\<open>data[i + 2]\<close> and writes
  \<^verbatim>\<open>motors[i]\<close>, while \<open>i < n\<close> for \<open>n\<close> = \<^verbatim>\<open>data_length - 2\<close>.
\<close>

function status_loop ::
  "u8 list \<Rightarrow> nat \<Rightarrow> nat \<Rightarrow> VMC96_motor_t list \<Rightarrow> VMC96_motor_t list option" where
  "status_loop d n i ms =
     (if i < n then
        (case load d (i + 2) of
           None \<Rightarrow> None
         | Some b \<Rightarrow>
             (case store ms i \<lparr>row = VMC96_GET_MOTOR_ROW b, col = VMC96_GET_MOTOR_COL b\<rparr> of
                None \<Rightarrow> None
              | Some ms' \<Rightarrow> status_loop d n (Suc i) ms'))
      else Some ms)"
  by pat_completeness auto
termination
  by (relation "measure (\<lambda>(d, n, i, ms). n - i)") auto

declare status_loop.simps [simp del]

definition vmc96_motor_get_status ::
  "platform \<Rightarrow> VMC96_t \<Rightarrow> VMC96_motor_array_status_t
     \<Rightarrow> (VMC96_code \<times> VMC96_t \<times> VMC96_motor_array_status_t) option" where
  "vmc96_motor_get_status pf s status =
     (case vmc96_send_message pf s VMC96_CONTROLLER_MOTOR_ARRAY
             VMC96_COMMAND_MOTOR_STATUS_REQUEST of
        None \<Rightarrow> None
      | Some (ret, s') \<Rightarrow>
          if ret \<noteq> VMC96_SUCCESS then Some (ret, s', status)
          else
            (let st0 = memset_status status; r = response s' in
             if unat (data_length r) \<ge> 2 then
               (case load (data r) 0 of
                  None \<Rightarrow> None
                | Some b0 \<Rightarrow>
                    if b0 \<noteq> VMC96_COMMAND_MOTOR_STATUS_REQUEST then
                      Some (VMC96_ERROR_RESPONSE_INVALID_SOURCE, s', st0)
                    else
                      (case load (data r) 1 of
                         None \<Rightarrow> None
                       | Some b1 \<Rightarrow>
                           (case status_loop (data r) (unat (data_length r) - 2) 0 (motors st0) of
                              None \<Rightarrow> None
                            | Some ms \<Rightarrow>
                                Some (VMC96_SUCCESS, s',
                                      st0\<lparr>current_ma := VMC96_GET_MOTOR_CURRENT_MA b1,
                                          active_count := uint (data_length r) - 2,
                                          motors := ms\<rparr>))))
             else Some (VMC96_SUCCESS, s', st0)))"

definition vmc96_motor_stop_all :: "platform \<Rightarrow> VMC96_t \<Rightarrow> (VMC96_code \<times> VMC96_t) option" where
  "vmc96_motor_stop_all pf s =
     vmc96_send_message pf s VMC96_CONTROLLER_MOTOR_ARRAY VMC96_COMMAND_MOTOR_STOP_ALL"

definition vmc96_motor_run ::
  "platform \<Rightarrow> VMC96_t \<Rightarrow> u8 \<Rightarrow> u8 \<Rightarrow> (VMC96_code \<times> VMC96_t) option" where
  "vmc96_motor_run pf s r c =
     (let dat = VMC96_GET_MOTOR_ID r c in
      if \<not> VMC96_VALIDATE_MOTOR_COORDINATE pf r c then
        Some (VMC96_ERROR_INVALID_MOTOR_COORDINATES, s)
      else vmc96_send_message_ex pf s VMC96_CONTROLLER_MOTOR_ARRAY VMC96_COMMAND_MOTOR_RUN
             (Some [dat]) 1)"

definition vmc96_motor_pair_run ::
  "platform \<Rightarrow> VMC96_t \<Rightarrow> u8 \<Rightarrow> u8 \<Rightarrow> u8 \<Rightarrow> (VMC96_code \<times> VMC96_t) option" where
  "vmc96_motor_pair_run pf s r c1 c2 =
     (let dat = [VMC96_GET_MOTOR_ID r c1, VMC96_GET_MOTOR_ID r c2] in
      if \<not> VMC96_VALIDATE_MOTOR_COORDINATE pf r c1 \<or> \<not> VMC96_VALIDATE_MOTOR_COORDINATE pf r c2
      then Some (VMC96_ERROR_INVALID_MOTOR_COORDINATES, s)
      else vmc96_send_message_ex pf s VMC96_CONTROLLER_MOTOR_ARRAY VMC96_COMMAND_MOTOR_RUN
             (Some dat) 2)"

text \<open>
  \<^verbatim>\<open>vmc96_motor_opto_line_status\<close>: the \<^verbatim>\<open>uint32_t\<close> the caller passes is modelled by its
  four bytes in memory (which number they are depends on the byte order of the platform).
\<close>

definition vmc96_motor_opto_line_status ::
  "platform \<Rightarrow> VMC96_t \<Rightarrow> u8 list \<Rightarrow> (VMC96_code \<times> VMC96_t \<times> u8 list) option" where
  "vmc96_motor_opto_line_status pf s status =
     (case vmc96_send_message pf s VMC96_CONTROLLER_MOTOR_ARRAY
             VMC96_COMMAND_MOTOR_OPTO_LINE_STATUS of
        None \<Rightarrow> None
      | Some (ret, s') \<Rightarrow>
          if ret \<noteq> VMC96_SUCCESS then Some (ret, s', status)
          else
            (let st0 = replicate 4 0 in
             if unat (data_length (response s')) = 5 then
               map_option (\<lambda>v. (VMC96_SUCCESS, s', v))
                 (memcpy st0 0 (data (response s')) 1 (unat (data_length (response s')) - 1))
             else Some (VMC96_SUCCESS, s', st0)))"

subsection \<open>Global commands\<close>

definition vmc96_global_reset :: "platform \<Rightarrow> VMC96_t \<Rightarrow> (VMC96_code \<times> VMC96_t) option" where
  "vmc96_global_reset pf s =
     (let dat = 0xFF in
      vmc96_send_message_ex pf s VMC96_CONTROLLER_GLOBAL_BROADCAST VMC96_COMMAND_GLOBAL_RESET
        (Some [dat]) 1)"

subsection \<open>Sessions to run the functions on\<close>

text \<open>
  The session as \<^verbatim>\<open>vmc96_initialize\<close> allocates it (\<^verbatim>\<open>calloc\<close>: every byte zero), on a
  transport whose purge and write succeed and which then delivers the bytes \<open>bs\<close>.
\<close>

definition zero_message :: vmc96_message_t where
  "zero_message =
     \<lparr>id_controller = 0, command = 0, data = replicate VMC96_MESSAGE_DATA_MAX_LEN 0,
      data_length = 0, raw = replicate VMC96_MESSAGE_MAX_LEN 0, raw_length = 0\<rparr>"

definition fresh_session :: "u8 list \<Rightarrow> VMC96_t" where
  "fresh_session bs =
     \<lparr>ftdi = \<lparr>purge_ret = 0, write_ret = 0, rx = Some bs, calls = []\<rparr>,
      message = zero_message, response = zero_message\<rparr>"

text \<open>
  Two platforms to run on, one with a signed and one with an unsigned \<^verbatim>\<open>char\<close>. The
  bounds 8 and 12 are sample values for the constants of the absent header (a board of
  96 motors); no theorem below depends on them.
\<close>

definition x86 :: platform where
  "x86 = \<lparr>CHAR_IS_SIGNED = True, VMC96_MOTOR_ARRAY_ROWS_COUNT = 8,
          VMC96_MOTOR_ARRAY_COLUMNS_COUNT = 12\<rparr>"

definition arm :: platform where
  "arm = \<lparr>CHAR_IS_SIGNED = False, VMC96_MOTOR_ARRAY_ROWS_COUNT = 8,
          VMC96_MOTOR_ARRAY_COLUMNS_COUNT = 12\<rparr>"

text \<open>
  The session in which a request to the address \<open>a\<close> is out and the bytes \<open>bs\<close> have
  been read: what \<^verbatim>\<open>vmc96_send_raw_message\<close> leaves for \<^verbatim>\<open>vmc96_parse_raw_response\<close>.
\<close>

definition awaiting :: "u8 \<Rightarrow> u8 list \<Rightarrow> VMC96_t" where
  "awaiting a bs =
     snd (vmc96_send_raw_message
            ((fresh_session bs)\<lparr>message := zero_message\<lparr>id_controller := a\<rparr>\<rparr>))"

text \<open>The session in which a ping to relay 0 is about to be framed.\<close>

definition ping_request :: VMC96_t where
  "ping_request =
     (fresh_session [])\<lparr>message := zero_message\<lparr>id_controller := 0x26, command := 0x00\<rparr>\<rparr>"

text \<open>
  A status response of the motor array with the payload \<open>10 80 11 22\<close>, and a status
  struct of the caller with room for two motors.
\<close>

definition status_reply :: "u8 list" where
  "status_reply = [0x35, 0x30, 0x08, 0x10, 0x80, 0x11, 0x22, 0xAE]"

definition sample_status :: VMC96_motor_array_status_t where
  "sample_status =
     \<lparr>motors = [\<lparr>row = 2, col = 3\<rparr>, \<lparr>row = 0, col = 0\<rparr>], active_count = 1,
      current_ma = 120\<rparr>"

subsection \<open>Notions used to state the properties\<close>

text \<open>
  The frame of a message is the first \<open>raw_length\<close> bytes of \<open>raw\<close>, its payload the
  first \<open>data_length\<close> bytes of \<open>data\<close>.
\<close>

definition frame :: "vmc96_message_t \<Rightarrow> u8 list" where
  "frame m = take (unat (raw_length m)) (raw m)"

definition payload :: "vmc96_message_t \<Rightarrow> u8 list" where
  "payload m = take (unat (data_length m)) (data m)"

text \<open>The checksum as the wire format words it: the XOR of all the bytes before it.\<close>

definition xor_of_bytes :: "u8 list \<Rightarrow> u8" where
  "xor_of_bytes bs = foldr (XOR) bs 0"

text \<open>The addresses of the second group of case labels in \<^verbatim>\<open>vmc96_parse_raw_response\<close>.\<close>

definition addressed :: "u8 \<Rightarrow> bool" where
  "addressed a \<longleftrightarrow>
     a = VMC96_CONTROLLER_RELAY_1 \<or> a = VMC96_CONTROLLER_RELAY_2 \<or>
     a = VMC96_CONTROLLER_MOTOR_ARRAY"


section \<open>Properties\<close>

subsection \<open>Building blocks\<close>

lemma xor_loop_foldr: "xor_loop a bs = a XOR foldr (XOR) bs 0"
  by (induction bs arbitrary: a) (simp_all add: ac_simps)

lemma xor_loop_xor_of_bytes: "xor_loop 0 bs = xor_of_bytes bs"
  by (simp add: xor_loop_foldr xor_of_bytes_def)

lemma word_of_char_value: "word_of_int (char_value pf w) = w"
  by (simp add: char_value_def)

lemma take_4_header:
  "4 \<le> length xs \<Longrightarrow> take 4 (xs[0 := a, 1 := b, 2 := c, 3 := d]) = [a, b, c, d]"
  by (cases xs; cases "tl xs"; cases "tl (tl xs)"; cases "tl (tl (tl xs))") auto

lemma unat_len5: "unat (w :: u8) \<le> 250 \<Longrightarrow> unat (w + 5) = unat w + 5"
  by (simp add: unat_word_ariths)

lemma frame_update_take:
  assumes "length h = 4" and "length p = n" and "t \<noteq> []"
  shows "take (n + 5) ((h @ p @ t)[n + 4 := c]) = h @ p @ [c]"
proof -
  from assms(3) obtain x t' where t: "t = x # t'" by (cases t) auto
  have "(h @ p @ t)[n + 4 := c] = ((h @ p) @ t)[length (h @ p) := c]"
    using assms(1,2) by (simp add: add.commute)
  also have "\<dots> = (h @ p) @ c # t'"
    unfolding t by (simp only: list_update_length)
  finally show ?thesis using assms(1,2) by simp
qed

lemma prepare_frame:
  assumes wf: "VMC96_wf s" and n: "unat (data_length (message s)) \<le> VMC96_MESSAGE_DATA_MAX_LEN"
  defines "n \<equiv> unat (data_length (message s))"
  defines "hdr \<equiv> [VMC96_MESSAGE_STX, id_controller (message s), data_length (message s) + 5,
                   command (message s)] @ take n (data (message s))"
  shows "\<exists>s'. vmc96_prepare_raw_message pf s = Some (VMC96_SUCCESS, s') \<and>
           raw_length (message s') = data_length (message s) + 5 \<and>
           unat (raw_length (message s')) = n + 5 \<and>
           take (n + 5) (raw (message s')) = hdr @ [xor_of_bytes hdr] \<and>
           length (raw (message s')) = VMC96_MESSAGE_MAX_LEN \<and>
           s' = s\<lparr>message := (message s)\<lparr>raw_length := raw_length (message s'), raw := raw (message s')\<rparr>\<rparr>"
proof -
  let ?m = "message s"
  let ?r0 = "(raw ?m)[0 := VMC96_MESSAGE_STX, 1 := id_controller ?m, 2 := data_length ?m + 5, 3 := command ?m]"
  define h where "h = take 4 ?r0"
  define p where "p = take n (data ?m)"
  define t where "t = drop (4 + n) ?r0"
  have lr: "length (raw ?m) = 255" and ld: "length (data ?m) = 250"
    using wf by (simp_all add: VMC96_wf_def VMC96_MESSAGE_MAX_LEN_def VMC96_MESSAGE_DATA_MAX_LEN_def)
  have n250: "n \<le> 250" using n by (simp add: n_def VMC96_MESSAGE_DATA_MAX_LEN_def)
  have ulen: "unat (data_length ?m + 5) = n + 5"
    using n250 unfolding n_def by (rule unat_len5)
  have h: "h = [VMC96_MESSAGE_STX, id_controller ?m, data_length ?m + 5, command ?m]"
    unfolding h_def by (rule take_4_header) (simp add: lr)
  have lh: "length h = 4" by (simp add: h)
  have lp: "length p = n" using n250 ld by (simp add: p_def)
  have lt: "length t = 251 - n" using lr by (simp add: t_def)
  have tne: "t \<noteq> []" using lt n250 by auto
  have hdr: "hdr = h @ p" by (simp add: hdr_def h p_def)
  have cp: "(if unat (data_length ?m) > 0 then memcpy ?r0 4 (data ?m) 0 (unat (data_length ?m)) else Some ?r0)
            = Some (h @ p @ t)"
  proof (cases "n = 0")
    case True
    have "take 4 ?r0 @ drop 4 ?r0 = ?r0" by (rule append_take_drop_id)
    with True show ?thesis by (simp add: n_def h_def p_def t_def del: drop_update_cancel take_update_cancel)
  next
    case False
    with n250 lr ld show ?thesis by (simp add: memcpy_def n_def h_def p_def t_def)
  qed
  have lr1: "length (h @ p @ t) = 255" using lh lp lt n250 by simp
  have tk: "take (4 + n) (h @ p @ t) = hdr" using lh lp by (simp add: hdr)
  have st: "store (h @ p @ t) (4 + n) c = Some ((h @ p @ t)[4 + n := c])" for c
    unfolding store_def using lr1 n250 by (simp only: if_True) simp
  have tk5: "take (n + 5) ((h @ p @ t)[4 + n := c]) = hdr @ [c]" for c
    using frame_update_take[OF lh lp tne] by (simp add: hdr add.commute)
  have l2: "length ((h @ p @ t)[4 + n := c]) = 255" for c
    using lr1 by (simp only: length_list_update)
  show ?thesis
    unfolding vmc96_prepare_raw_message_def Let_def cp
    using ulen n250
    by (simp add: vmc96_calculate_checksum_def word_of_char_value xor_loop_xor_of_bytes
         VMC96_MESSAGE_MAX_LEN_def st tk tk5 l2 lr1
         del: length_append length_take length_drop append.simps take_append drop_append append_assoc)
qed

lemma memcpy_length: "memcpy dst d src s n = Some r \<Longrightarrow> length r = length dst"
  by (auto simp: memcpy_def split: if_splits)


lemma send_raw_message_message: "message (snd (vmc96_send_raw_message s)) = message s"
  by (simp add: vmc96_send_raw_message_def ftdi_usb_purge_buffers_def ftdi_write_data_def
      ftdi_read_data_def Let_def split: option.split)

lemma send_raw_message_response:
  "data (response (snd (vmc96_send_raw_message s))) = data (response s) \<and>
   data_length (response (snd (vmc96_send_raw_message s))) = data_length (response s) \<and>
   id_controller (response (snd (vmc96_send_raw_message s))) = id_controller (response s)"
  by (simp add: vmc96_send_raw_message_def ftdi_usb_purge_buffers_def ftdi_write_data_def
      ftdi_read_data_def Let_def split: option.split)

lemma send_raw_message_wf: "VMC96_wf s \<Longrightarrow> VMC96_wf (snd (vmc96_send_raw_message s))"
  by (auto simp: vmc96_send_raw_message_def ftdi_usb_purge_buffers_def ftdi_write_data_def
      ftdi_read_data_def Let_def VMC96_wf_def VMC96_MESSAGE_MAX_LEN_def split: option.split)

lemma send_raw_message_ok:
  assumes "0 \<le> purge_ret (ftdi s)" and "0 \<le> write_ret (ftdi s)" and "rx (ftdi s) = Some bs"
  shows "fst (vmc96_send_raw_message s) = VMC96_SUCCESS"
  using assms
  by (simp add: vmc96_send_raw_message_def ftdi_usb_purge_buffers_def ftdi_write_data_def
      ftdi_read_data_def Let_def)

lemma parse_keeps:
  assumes "vmc96_parse_raw_response pf s = Some (ret, s')"
  shows "message s' = message s \<and> ftdi s' = ftdi s \<and> raw (response s') = raw (response s) \<and>
         raw_length (response s') = raw_length (response s) \<and>
         length (data (response s')) = length (data (response s))"
  using assms
  by (auto simp: vmc96_parse_raw_response_def Let_def dest: memcpy_length
           split: if_splits option.splits)


lemma addressed_not_broadcast: "addressed a \<Longrightarrow> a \<noteq> VMC96_CONTROLLER_GLOBAL_BROADCAST"
  by (auto simp: addressed_def VMC96_CONTROLLER_GLOBAL_BROADCAST_def VMC96_CONTROLLER_RELAY_1_def
      VMC96_CONTROLLER_RELAY_2_def VMC96_CONTROLLER_MOTOR_ARRAY_def)

text \<open>The branch of the addressed controllers, written out.\<close>

lemma parse_addressed:
  assumes "addressed (id_controller (message s))"
  shows "vmc96_parse_raw_response pf s =
     (let r = response s in
        if unat (raw_length r) < 5 then Some (VMC96_ERROR_RESPONSE_INVALID_LENGTH, s)
        else
          (let dl = raw r ! 2 - 4 in
           case memcpy (data r) 0 (raw r) 3 (unat dl) of
             None \<Rightarrow> None
           | Some d \<Rightarrow>
               (let s' = s\<lparr>response := r\<lparr>id_controller := raw r ! 1, data_length := dl, data := d\<rparr>\<rparr>
                in if raw r ! 0 \<noteq> VMC96_MESSAGE_STX then
                     Some (VMC96_ERROR_RESPONSE_MALFORMED, s')
                   else if raw r ! 1 \<noteq> id_controller (message s) then
                     Some (VMC96_ERROR_RESPONSE_INVALID_SOURCE, s')
                   else if raw r ! 2 \<noteq> raw_length r then
                     Some (VMC96_ERROR_RESPONSE_INVALID_LENGTH, s')
                   else if uint (raw r ! (unat (raw_length r) - 1))
                           \<noteq> vmc96_calculate_checksum pf (raw r) (unat (raw_length r) - 1) then
                     Some (VMC96_ERROR_RESPONSE_INVALID_CHECKSUM, s')
                   else Some (VMC96_SUCCESS, s'))))"
  using assms addressed_not_broadcast[OF assms]
  unfolding vmc96_parse_raw_response_def addressed_def by (simp only: if_False if_True Let_def) 


lemma send_message_unfold:
  assumes wf: "VMC96_wf s"
  obtains s1 where
    "VMC96_wf s1" and "id_controller (message s1) = a" and "response s1 = response s"
    and "ftdi s1 = ftdi s"
    and "take 5 (raw (message s1)) = [VMC96_MESSAGE_STX, a, 5, cmd, xor_of_bytes [VMC96_MESSAGE_STX, a, 5, cmd]]"
    and "raw_length (message s1) = 5"
    and "vmc96_send_message pf s a cmd =
           (case vmc96_send_raw_message s1 of
              (ret, s2) \<Rightarrow> if ret \<noteq> VMC96_SUCCESS then Some (ret, s2)
                           else vmc96_parse_raw_response pf s2)"
proof -
  let ?s0 = "s\<lparr>message := (message s)\<lparr>id_controller := a, command := cmd,
                 data := replicate VMC96_MESSAGE_DATA_MAX_LEN 0, data_length := 0\<rparr>\<rparr>"
  have wf0: "VMC96_wf ?s0" using wf by (simp add: VMC96_wf_def)
  have "unat (data_length (message ?s0)) \<le> VMC96_MESSAGE_DATA_MAX_LEN" by simp
  from prepare_frame[OF wf0 this, of pf] obtain s1 where
    p: "vmc96_prepare_raw_message pf ?s0 = Some (VMC96_SUCCESS, s1)"
    and rl: "raw_length (message s1) = data_length (message ?s0) + 5"
    and tk: "take (unat (data_length (message ?s0)) + 5) (raw (message s1)) =
       ([VMC96_MESSAGE_STX, id_controller (message ?s0), data_length (message ?s0) + 5,
                   command (message ?s0)] @ take (unat (data_length (message ?s0))) (data (message ?s0))) @
       [xor_of_bytes ([VMC96_MESSAGE_STX, id_controller (message ?s0), data_length (message ?s0) + 5,
                   command (message ?s0)] @ take (unat (data_length (message ?s0))) (data (message ?s0)))]"
    and len: "length (raw (message s1)) = VMC96_MESSAGE_MAX_LEN"
    and eq: "s1 = ?s0\<lparr>message := (message ?s0)\<lparr>raw_length := raw_length (message s1), raw := raw (message s1)\<rparr>\<rparr>"
    by blast
  have 1: "VMC96_wf s1" using wf len by (subst eq) (simp add: VMC96_wf_def)
  have 2: "id_controller (message s1) = a" by (subst eq) simp
  have 3: "response s1 = response s" by (subst eq) simp
  have 4: "ftdi s1 = ftdi s" by (subst eq) simp
  have 5: "take 5 (raw (message s1)) = [VMC96_MESSAGE_STX, a, 5, cmd, xor_of_bytes [VMC96_MESSAGE_STX, a, 5, cmd]]"
    using tk by simp
  have 6: "raw_length (message s1) = 5" using rl by simp
  have 7: "vmc96_send_message pf s a cmd =
           (case vmc96_send_raw_message s1 of
              (ret, s2) \<Rightarrow> if ret \<noteq> VMC96_SUCCESS then Some (ret, s2)
                           else vmc96_parse_raw_response pf s2)"
    unfolding vmc96_send_message_def vmc96_send_message_ex_def
    by (simp add: p Let_def)
  from 1 2 3 4 5 6 7 show thesis by (rule that)
qed


lemma fresh_session_wf: "VMC96_wf (fresh_session bs)"
  by (simp add: VMC96_wf_def fresh_session_def zero_message_def)

subsection \<open>Coordinates and current scaling\<close>

lemma motor_id_uint:
  assumes "uint r \<le> 14" and "uint c \<le> 14"
  shows "uint (VMC96_GET_MOTOR_ID r c) = 16 * (uint r + 1) + (uint c + 1)"
proof -
  have a: "16 * (uint r + 1) + (uint c + 1) < 256" using assms by simp
  have b: "0 \<le> 16 * (uint r + 1) + (uint c + 1)" by simp
  have "uint (word_of_int (16 * (uint r + 1) + (uint c + 1)) :: u8) = (16 * (uint r + 1) + (uint c + 1)) mod 256"
    by (simp only: uint_word_of_int take_bit_eq_mod) simp
  also have "\<dots> = 16 * (uint r + 1) + (uint c + 1)" by (rule mod_pos_pos_trivial[OF b a])
  finally have e: "uint (word_of_int (16 * (uint r + 1) + (uint c + 1)) :: u8) = 16 * (uint r + 1) + (uint c + 1)" .
  have "push_bit 4 (uint r + 1) = 16 * (uint r + 1)" by (simp add: push_bit_eq_mult)
  then show ?thesis unfolding VMC96_GET_MOTOR_ID_def by (simp only: e)
qed

lemma and_0x0F: "(v::int) AND 0x0F = v mod 16"
proof -
  have "v AND mask 4 = take_bit 4 v" by (simp only: take_bit_eq_mask)
  also have "\<dots> = v mod 16" by (simp add: take_bit_eq_mod)
  finally show ?thesis by (simp add: mask_eq_exp_minus_1)
qed


lemma and_0xF0: "drop_bit 4 ((v::int) AND 0xF0) = (v div 16) mod 16"
proof -
  have "drop_bit 4 (v AND 0xF0) = drop_bit 4 v AND drop_bit 4 0xF0"
    by (simp only: drop_bit_and)
  also have "drop_bit 4 (0xF0::int) = 0x0F" by (simp add: drop_bit_eq_div)
  also have "drop_bit 4 v AND 0x0F = drop_bit 4 v mod 16" by (rule and_0x0F)
  finally show ?thesis by (simp add: drop_bit_eq_div)
qed

lemma div16: "0 \<le> b \<Longrightarrow> b < 16 \<Longrightarrow> (16 * a + b) div 16 = (a::int)"
  by simp
lemma mod16: "0 \<le> b \<Longrightarrow> b < 16 \<Longrightarrow> (16 * a + b) mod 16 = (b::int)"
  by simp

text \<open>
  Claim C4. For every row and column within the bounds of the motor array, decoding the
  motor-id byte that \<open>VMC96_GET_MOTOR_ID\<close> encodes gives the row and the column back.
  The bounds are constants of the absent header; the theorem covers every pair of bounds
  up to 15 by 15, which is what the two nibbles of the id byte can hold.
\<close>

theorem coordinate_round_trip:
  assumes "VMC96_VALIDATE_MOTOR_COORDINATE pf r c"
    and "VMC96_MOTOR_ARRAY_ROWS_COUNT pf \<le> 15" and "VMC96_MOTOR_ARRAY_COLUMNS_COUNT pf \<le> 15"
  shows "VMC96_GET_MOTOR_ROW (VMC96_GET_MOTOR_ID r c) = uint r \<and>
         VMC96_GET_MOTOR_COL (VMC96_GET_MOTOR_ID r c) = uint c"
proof -
  have r: "uint r \<le> 14" and c: "uint c \<le> 14"
    using assms by (simp_all add: VMC96_VALIDATE_MOTOR_COORDINATE_def)
  have c1: "0 \<le> uint c + 1" by simp
  have c2: "uint c + 1 < 16" using c by simp
  have r1: "0 \<le> uint r + 1" by simp
  have r2: "uint r + 1 < 16" using r by simp
  have "VMC96_GET_MOTOR_ROW (VMC96_GET_MOTOR_ID r c) = ((16 * (uint r + 1) + (uint c + 1)) div 16) mod 16 - 1"
    by (simp only: VMC96_GET_MOTOR_ROW_def motor_id_uint[OF r c] and_0xF0)
  also have "\<dots> = (uint r + 1) mod 16 - 1" by (simp only: div16[OF c1 c2])
  also have "\<dots> = uint r" using r1 r2 by simp
  finally have row: "VMC96_GET_MOTOR_ROW (VMC96_GET_MOTOR_ID r c) = uint r" .
  have "VMC96_GET_MOTOR_COL (VMC96_GET_MOTOR_ID r c) = (16 * (uint r + 1) + (uint c + 1)) mod 16 - 1"
    by (simp only: VMC96_GET_MOTOR_COL_def motor_id_uint[OF r c] and_0x0F)
  also have "\<dots> = uint c" using mod16[OF c1 c2, of "uint r + 1"] by simp
  finally show ?thesis using row by simp
qed

theorem coordinate_round_trip_witness:
  "VMC96_VALIDATE_MOTOR_COORDINATE arm 7 11 \<and>
   VMC96_MOTOR_ARRAY_ROWS_COUNT arm \<le> 15 \<and> VMC96_MOTOR_ARRAY_COLUMNS_COUNT arm \<le> 15 \<and>
   VMC96_GET_MOTOR_ROW (VMC96_GET_MOTOR_ID 7 11) = 7 \<and>
   VMC96_GET_MOTOR_COL (VMC96_GET_MOTOR_ID 7 11) = 11"
proof -
  have v: "VMC96_VALIDATE_MOTOR_COORDINATE arm 7 11"
    by (simp add: VMC96_VALIDATE_MOTOR_COORDINATE_def arm_def)
  have b: "VMC96_MOTOR_ARRAY_ROWS_COUNT arm \<le> 15" "VMC96_MOTOR_ARRAY_COLUMNS_COUNT arm \<le> 15"
    by (simp_all add: arm_def)
  from v b coordinate_round_trip[OF v b] show ?thesis by simp
qed

text \<open>
  Claim C5. For coordinates outside the bounds, \<open>vmc96_motor_run\<close> and
  \<open>vmc96_motor_pair_run\<close> return \<open>VMC96_ERROR_INVALID_MOTOR_COORDINATES\<close> and the
  session is the one they were given: no buffer is written and the log of transport
  calls has not grown.
\<close>

theorem invalid_coordinates_rejected_before_transport:
  "(\<not> VMC96_VALIDATE_MOTOR_COORDINATE pf r c \<longrightarrow>
      vmc96_motor_run pf s r c = Some (VMC96_ERROR_INVALID_MOTOR_COORDINATES, s)) \<and>
   (\<not> VMC96_VALIDATE_MOTOR_COORDINATE pf r c1 \<or> \<not> VMC96_VALIDATE_MOTOR_COORDINATE pf r c2 \<longrightarrow>
      vmc96_motor_pair_run pf s r c1 c2 = Some (VMC96_ERROR_INVALID_MOTOR_COORDINATES, s))"
  by (simp add: vmc96_motor_run_def vmc96_motor_pair_run_def Let_def)

theorem invalid_coordinates_witness:
  "\<not> VMC96_VALIDATE_MOTOR_COORDINATE arm 8 0 \<and> \<not> VMC96_VALIDATE_MOTOR_COORDINATE arm 0 12 \<and>
   vmc96_motor_run arm (fresh_session []) 8 0
     = Some (VMC96_ERROR_INVALID_MOTOR_COORDINATES, fresh_session []) \<and>
   vmc96_motor_pair_run arm (fresh_session []) 0 3 12
     = Some (VMC96_ERROR_INVALID_MOTOR_COORDINATES, fresh_session [])"
proof -
  have a: "\<not> VMC96_VALIDATE_MOTOR_COORDINATE arm 8 0"
    by (simp add: VMC96_VALIDATE_MOTOR_COORDINATE_def arm_def)
  have b: "\<not> VMC96_VALIDATE_MOTOR_COORDINATE arm 0 12"
    by (simp add: VMC96_VALIDATE_MOTOR_COORDINATE_def arm_def)
  from a b invalid_coordinates_rejected_before_transport[of arm 8 0 "fresh_session []"]
    invalid_coordinates_rejected_before_transport[of arm 0 12 "fresh_session []" 3 12]
  show ?thesis by blast
qed

text \<open>
  Claim C9. The scaling of the raw current reading, \<open>(500 * raw) / 255\<close>, is
  nondecreasing over the raw byte and maps 0 to 0 and 255 to 500.
\<close>

theorem current_scaling_monotone:
  "(\<forall>a b. a \<le> b \<longrightarrow> VMC96_GET_MOTOR_CURRENT_MA a \<le> VMC96_GET_MOTOR_CURRENT_MA b) \<and>
   VMC96_GET_MOTOR_CURRENT_MA 0 = 0 \<and> VMC96_GET_MOTOR_CURRENT_MA 255 = 500"
proof -
  have "VMC96_GET_MOTOR_CURRENT_MA a \<le> VMC96_GET_MOTOR_CURRENT_MA b" if "a \<le> b" for a b
  proof -
    from that have "500 * uint a \<le> 500 * uint b" by (simp add: word_le_def)
    then show ?thesis
      unfolding VMC96_GET_MOTOR_CURRENT_MA_def VMC96_MOTOR_MAX_CURRENT_READING_MA_def
      by (rule zdiv_mono1) simp
  qed
  moreover have "VMC96_GET_MOTOR_CURRENT_MA 0 = 0" "VMC96_GET_MOTOR_CURRENT_MA 255 = 500"
    by (simp_all add: VMC96_GET_MOTOR_CURRENT_MA_def VMC96_MOTOR_MAX_CURRENT_READING_MA_def)
  ultimately show ?thesis by blast
qed

theorem current_scaling_witness:
  "(0x40 :: u8) \<le> 0x80 \<and> VMC96_GET_MOTOR_CURRENT_MA 0x40 = 125 \<and>
   VMC96_GET_MOTOR_CURRENT_MA 0x80 = 250 \<and>
   VMC96_GET_MOTOR_CURRENT_MA 0x40 \<le> VMC96_GET_MOTOR_CURRENT_MA 0x80"
proof -
  have le: "(0x40 :: u8) \<le> 0x80" by simp
  have v: "VMC96_GET_MOTOR_CURRENT_MA 0x40 = 125" "VMC96_GET_MOTOR_CURRENT_MA 0x80 = 250"
    by (simp_all add: VMC96_GET_MOTOR_CURRENT_MA_def VMC96_MOTOR_MAX_CURRENT_READING_MA_def)
  from current_scaling_monotone have
    "VMC96_GET_MOTOR_CURRENT_MA 0x40 \<le> VMC96_GET_MOTOR_CURRENT_MA 0x80"
    using le by blast
  with le v show ?thesis by blast
qed

subsection \<open>Frames\<close>

text \<open>
  Claim C6. For every address, command and payload of 0 to 250 bytes,
  \<open>vmc96_prepare_raw_message\<close> builds the frame
  \<open>[0x35][address][length of the payload + 5][command][payload][checksum]\<close>, whose last
  byte is the XOR of all the bytes before it; the ping to relay 0 (address 0x26, command
  0x00, no payload) is framed as \<open>35 26 05 00 16\<close>.
\<close>

theorem frame_layout_and_checksum:
  assumes "VMC96_wf s" and "unat (data_length (message s)) \<le> VMC96_MESSAGE_DATA_MAX_LEN"
  shows "\<exists>s' cks. vmc96_prepare_raw_message pf s = Some (VMC96_SUCCESS, s') \<and>
           frame (message s') =
             [0x35, id_controller (message s), data_length (message s) + 5, command (message s)]
               @ payload (message s) @ [cks] \<and>
           unat (data_length (message s) + 5) = length (payload (message s)) + 5 \<and>
           cks = xor_of_bytes (butlast (frame (message s'))) \<and>
           (id_controller (message s) = 0x26 \<and> command (message s) = 0x00 \<and>
            data_length (message s) = 0 \<longrightarrow>
              frame (message s') = [0x35, 0x26, 0x05, 0x00, 0x16])"
proof -
  let ?n = "unat (data_length (message s))"
  let ?hdr = "[VMC96_MESSAGE_STX, id_controller (message s), data_length (message s) + 5,
               command (message s)] @ take ?n (data (message s))"
  from prepare_frame[OF assms, of pf] obtain s' where
    p: "vmc96_prepare_raw_message pf s = Some (VMC96_SUCCESS, s')"
    and rl: "raw_length (message s') = data_length (message s) + 5"
    and un: "unat (raw_length (message s')) = ?n + 5"
    and tk: "take (?n + 5) (raw (message s')) = ?hdr @ [xor_of_bytes ?hdr]"
    by blast
  have fr: "frame (message s') = ?hdr @ [xor_of_bytes ?hdr]"
    by (simp only: frame_def un tk)
  have ln: "length (payload (message s)) = ?n"
    using assms by (simp add: payload_def VMC96_wf_def)
  have bl: "butlast (frame (message s')) = ?hdr" by (simp only: fr butlast_snoc)
  have ping: "frame (message s') = [0x35, 0x26, 0x05, 0x00, 0x16]"
    if "id_controller (message s) = 0x26" "command (message s) = 0x00" "data_length (message s) = 0"
    using that by (simp add: fr VMC96_MESSAGE_STX_def xor_of_bytes_def)
  have "frame (message s') =
          [0x35, id_controller (message s), data_length (message s) + 5, command (message s)]
            @ payload (message s) @ [xor_of_bytes ?hdr]"
    by (simp add: fr payload_def VMC96_MESSAGE_STX_def)
  moreover have "unat (data_length (message s) + 5) = length (payload (message s)) + 5"
    using un rl ln by simp
  moreover have "xor_of_bytes ?hdr = xor_of_bytes (butlast (frame (message s')))"
    by (simp only: bl)
  ultimately show ?thesis using p ping by blast
qed

theorem frame_layout_witness:
  "VMC96_wf ping_request \<and>
   unat (data_length (message ping_request)) \<le> VMC96_MESSAGE_DATA_MAX_LEN \<and>
   map_option fst (vmc96_prepare_raw_message x86 ping_request) = Some VMC96_SUCCESS \<and>
   map_option (frame \<circ> message \<circ> snd) (vmc96_prepare_raw_message x86 ping_request)
     = Some [0x35, 0x26, 0x05, 0x00, 0x16]"
proof -
  have wf: "VMC96_wf ping_request"
    by (simp add: ping_request_def VMC96_wf_def fresh_session_def zero_message_def)
  have n: "unat (data_length (message ping_request)) \<le> VMC96_MESSAGE_DATA_MAX_LEN"
    by (simp add: ping_request_def zero_message_def)
  have f: "id_controller (message ping_request) = 0x26" "command (message ping_request) = 0x00"
    "data_length (message ping_request) = 0"
    by (simp_all add: ping_request_def zero_message_def)
  from frame_layout_and_checksum[OF wf n, of x86] f wf n show ?thesis by auto
qed

subsection \<open>Validation of the response\<close>

lemma not_listed:
  assumes "a \<notin> {0x00, 0x26, 0x27, 0x30}"
  shows "a \<noteq> VMC96_CONTROLLER_GLOBAL_BROADCAST" and "\<not> addressed a"
  using assms
  by (simp_all add: addressed_def VMC96_CONTROLLER_GLOBAL_BROADCAST_def
      VMC96_CONTROLLER_RELAY_1_def VMC96_CONTROLLER_RELAY_2_def VMC96_CONTROLLER_MOTOR_ARRAY_def)

lemma parse_default:
  assumes "id_controller (message s) \<notin> {0x00, 0x26, 0x27, 0x30}"
  shows "vmc96_parse_raw_response pf s = Some (VMC96_SUCCESS, s)"
  using not_listed[OF assms]
  unfolding vmc96_parse_raw_response_def addressed_def by (simp only: Let_def if_False de_Morgan_disj simp_thms)

lemma send_message_default:
  assumes a: "a \<notin> {0x00, 0x26, 0x27, 0x30}" and wf: "VMC96_wf s"
    and ok: "0 \<le> purge_ret (ftdi s)" "0 \<le> write_ret (ftdi s)" "rx (ftdi s) = Some bs"
  shows "\<exists>s'. vmc96_send_message pf s a cmd = Some (VMC96_SUCCESS, s') \<and>
            data (response s') = data (response s) \<and>
            data_length (response s') = data_length (response s) \<and>
            id_controller (response s') = id_controller (response s)"
proof -
  from send_message_unfold[OF wf, of a cmd pf] obtain s1 where
    s1: "id_controller (message s1) = a" "response s1 = response s" "ftdi s1 = ftdi s"
    and eq: "vmc96_send_message pf s a cmd =
           (case vmc96_send_raw_message s1 of
              (ret, s2) \<Rightarrow> if ret \<noteq> VMC96_SUCCESS then Some (ret, s2)
                           else vmc96_parse_raw_response pf s2)"
    by blast
  obtain ret s2 where r: "vmc96_send_raw_message s1 = (ret, s2)" by (cases "vmc96_send_raw_message s1")
  have "ret = VMC96_SUCCESS"
    using send_raw_message_ok[of s1 bs] ok r by (simp add: s1)
  moreover have "id_controller (message s2) = a"
    using send_raw_message_message[of s1] r s1 by simp
  then have "vmc96_parse_raw_response pf s2 = Some (VMC96_SUCCESS, s2)"
    using a by (intro parse_default) simp
  moreover have "data (response s2) = data (response s) \<and>
            data_length (response s2) = data_length (response s) \<and>
            id_controller (response s2) = id_controller (response s)"
    using send_raw_message_response[of s1] r s1 by simp
  ultimately show ?thesis by (simp add: eq r)
qed

text \<open>
  Claim C10. When the address the request went to is none of 0x00, 0x26, 0x27 and 0x30,
  \<open>vmc96_parse_raw_response\<close> checks nothing and returns success with the session
  untouched, whatever was received. The public API reaches such addresses: for a relay
  id whose address \<open>0x26 + id\<close> is none of the four (id 2, for one), \<open>vmc96_relay_ping\<close>
  on a working transport returns success and leaves the payload fields of the response
  as they were.
\<close>

theorem unlisted_address_not_validated:
  "(id_controller (message s) \<notin> {0x00, 0x26, 0x27, 0x30} \<longrightarrow>
      vmc96_parse_raw_response pf s = Some (VMC96_SUCCESS, s)) \<and>
   (VMC96_CONTROLLER_RELAY_BASE_ADDRESS + rid \<notin> {0x00, 0x26, 0x27, 0x30} \<and> VMC96_wf s \<and>
    0 \<le> purge_ret (ftdi s) \<and> 0 \<le> write_ret (ftdi s) \<and> rx (ftdi s) = Some bs \<longrightarrow>
      (\<exists>s'. vmc96_relay_ping pf s rid = Some (VMC96_SUCCESS, s') \<and>
            id_controller (message s') = VMC96_CONTROLLER_RELAY_BASE_ADDRESS + rid \<and>
            data (response s') = data (response s) \<and>
            data_length (response s') = data_length (response s) \<and>
            id_controller (response s') = id_controller (response s)))"
proof (intro conjI impI)
  assume "id_controller (message s) \<notin> {0x00, 0x26, 0x27, 0x30}"
  then show "vmc96_parse_raw_response pf s = Some (VMC96_SUCCESS, s)" by (rule parse_default)
next
  let ?a = "VMC96_CONTROLLER_RELAY_BASE_ADDRESS + rid"
  assume h: "?a \<notin> {0x00, 0x26, 0x27, 0x30} \<and> VMC96_wf s \<and>
    0 \<le> purge_ret (ftdi s) \<and> 0 \<le> write_ret (ftdi s) \<and> rx (ftdi s) = Some bs"
  then have a: "?a \<notin> {0x00, 0x26, 0x27, 0x30}" and wf: "VMC96_wf s"
    and ok: "0 \<le> purge_ret (ftdi s)" "0 \<le> write_ret (ftdi s)" "rx (ftdi s) = Some bs"
    by blast+
  from send_message_default[OF a wf ok, of pf VMC96_COMMAND_SIMPLE_PING] obtain s' where
    s': "vmc96_send_message pf s ?a VMC96_COMMAND_SIMPLE_PING = Some (VMC96_SUCCESS, s')"
      "data (response s') = data (response s)"
      "data_length (response s') = data_length (response s)"
      "id_controller (response s') = id_controller (response s)"
    by blast
  have "id_controller (message s') = ?a"
  proof -
    from send_message_unfold[OF wf, of ?a VMC96_COMMAND_SIMPLE_PING pf] obtain s1 where
      s1: "id_controller (message s1) = ?a"
      and eq: "vmc96_send_message pf s ?a VMC96_COMMAND_SIMPLE_PING =
           (case vmc96_send_raw_message s1 of
              (ret, s2) \<Rightarrow> if ret \<noteq> VMC96_SUCCESS then Some (ret, s2)
                           else vmc96_parse_raw_response pf s2)"
      by blast
    obtain ret s2 where r: "vmc96_send_raw_message s1 = (ret, s2)"
      by (cases "vmc96_send_raw_message s1")
    have m2: "message s2 = message s1" using send_raw_message_message[of s1] r by simp
    show ?thesis
    proof (cases "ret = VMC96_SUCCESS")
      case True
      with s'(1) eq r have "vmc96_parse_raw_response pf s2 = Some (VMC96_SUCCESS, s')" by simp
      from parse_keeps[OF this] m2 s1 show ?thesis by simp
    next
      case False
      with s'(1) eq r show ?thesis by simp
    qed
  qed
  with s' show "\<exists>s'. vmc96_relay_ping pf s rid = Some (VMC96_SUCCESS, s') \<and>
            id_controller (message s') = ?a \<and>
            data (response s') = data (response s) \<and>
            data_length (response s') = data_length (response s) \<and>
            id_controller (response s') = id_controller (response s)"
    unfolding vmc96_relay_ping_def by blast
qed

theorem unlisted_address_witness:
  "VMC96_CONTROLLER_RELAY_BASE_ADDRESS + 2 \<notin> {0x00, 0x26, 0x27, 0x30 :: u8} \<and>
   VMC96_wf (fresh_session [0xDE, 0xAD]) \<and>
   map_option fst (vmc96_relay_ping x86 (fresh_session [0xDE, 0xAD]) 2) = Some VMC96_SUCCESS \<and>
   map_option (payload \<circ> response \<circ> snd) (vmc96_relay_ping x86 (fresh_session [0xDE, 0xAD]) 2)
     = Some []"
proof -
  have a: "VMC96_CONTROLLER_RELAY_BASE_ADDRESS + 2 \<notin> {0x00, 0x26, 0x27, 0x30 :: u8}"
    by (simp add: VMC96_CONTROLLER_RELAY_BASE_ADDRESS_def)
  have wf: "VMC96_wf (fresh_session [0xDE, 0xAD])" by (rule fresh_session_wf)
  have ok: "0 \<le> purge_ret (ftdi (fresh_session [0xDE, 0xAD]))"
    "0 \<le> write_ret (ftdi (fresh_session [0xDE, 0xAD]))"
    "rx (ftdi (fresh_session [0xDE, 0xAD])) = Some [0xDE, 0xAD]"
    by (simp_all add: fresh_session_def)
  have p: "payload (response (fresh_session [0xDE, 0xAD])) = []"
    by (simp add: payload_def fresh_session_def zero_message_def)
  from unlisted_address_not_validated[of "fresh_session [0xDE, 0xAD]" x86 2 "[0xDE, 0xAD]"] a wf ok
  obtain s' where "vmc96_relay_ping x86 (fresh_session [0xDE, 0xAD]) 2 = Some (VMC96_SUCCESS, s')"
    "data (response s') = data (response (fresh_session [0xDE, 0xAD]))"
    "data_length (response s') = data_length (response (fresh_session [0xDE, 0xAD]))"
    by blast
  with a wf p show ?thesis by (simp add: payload_def)
qed

lemma copy_fits:
  assumes "VMC96_wf s" and "4 \<le> unat (b :: u8)" and "unat b \<le> 254"
  shows "\<exists>d. memcpy (data (response s)) 0 (raw (response s)) 3 (unat (b - 4)) = Some d"
proof -
  have "unat (b - 4) = unat b - 4" using assms(2) by (simp add: unat_sub word_le_nat_alt)
  with assms show ?thesis
    by (auto simp: memcpy_def VMC96_wf_def VMC96_MESSAGE_DATA_MAX_LEN_def VMC96_MESSAGE_MAX_LEN_def)
qed

text \<open>
  Claim C2, amended. For a response of at least five bytes to a request to a relay or the
  motor array, whose length byte (the third byte) is between 4 and 254, a first byte other
  than 0x35 is rejected with \<open>VMC96_ERROR_RESPONSE_MALFORMED\<close>, whatever the other bytes
  are. (A response of fewer than five bytes is rejected with
  \<open>VMC96_ERROR_RESPONSE_INVALID_LENGTH\<close> before the first byte is looked at.)
\<close>

theorem bad_start_byte_malformed:
  assumes "VMC96_wf s" and "addressed (id_controller (message s))"
    and "5 \<le> unat (raw_length (response s))"
    and "4 \<le> unat (raw (response s) ! 2)" and "unat (raw (response s) ! 2) \<le> 254"
    and "raw (response s) ! 0 \<noteq> VMC96_MESSAGE_STX"
  shows "\<exists>s'. vmc96_parse_raw_response pf s = Some (VMC96_ERROR_RESPONSE_MALFORMED, s')"
proof -
  from copy_fits[OF assms(1,4,5)] obtain d where
    "memcpy (data (response s)) 0 (raw (response s)) 3 (unat (raw (response s) ! 2 - 4)) = Some d"
    by blast
  with assms(3,6) show ?thesis
    unfolding parse_addressed[OF assms(2)] by (simp add: Let_def)
qed

text \<open>
  Claim C7, amended. For a response to a request to a relay or the motor array whose length
  byte differs from the number of bytes received, validation returns
  \<open>VMC96_ERROR_RESPONSE_INVALID_LENGTH\<close> when fewer than five bytes were received, or when
  the first byte is 0x35, the second byte is the address the request went to and the
  length byte is between 4 and 254. (A wrong first byte or a wrong address is reported
  first, as malformed or as an invalid source.)
\<close>

theorem declared_length_mismatch_invalid_length:
  assumes "VMC96_wf s" and "addressed (id_controller (message s))"
    and "raw (response s) ! 2 \<noteq> raw_length (response s)"
    and "unat (raw_length (response s)) < 5 \<or>
         (raw (response s) ! 0 = VMC96_MESSAGE_STX \<and>
          raw (response s) ! 1 = id_controller (message s) \<and>
          4 \<le> unat (raw (response s) ! 2) \<and> unat (raw (response s) ! 2) \<le> 254)"
  shows "\<exists>s'. vmc96_parse_raw_response pf s = Some (VMC96_ERROR_RESPONSE_INVALID_LENGTH, s')"
proof (cases "unat (raw_length (response s)) < 5")
  case True
  then show ?thesis unfolding parse_addressed[OF assms(2)] by (simp add: Let_def)
next
  case False
  with assms(4) have h: "raw (response s) ! 0 = VMC96_MESSAGE_STX"
    "raw (response s) ! 1 = id_controller (message s)"
    "4 \<le> unat (raw (response s) ! 2)" "unat (raw (response s) ! 2) \<le> 254"
    by blast+
  from copy_fits[OF assms(1) h(3,4)] obtain d where
    "memcpy (data (response s)) 0 (raw (response s)) 3 (unat (raw (response s) ! 2 - 4)) = Some d"
    by blast
  with False h(1,2) assms(3) show ?thesis
    unfolding parse_addressed[OF assms(2)] by (simp add: Let_def)
qed

lemma awaiting_wf: "VMC96_wf (awaiting a bs)"
  unfolding awaiting_def
  by (rule send_raw_message_wf) (simp add: VMC96_wf_def fresh_session_def zero_message_def)

lemma awaiting_message: "id_controller (message (awaiting a bs)) = a"
  unfolding awaiting_def by (simp add: send_raw_message_message)

lemma awaiting_raw:
  "length bs \<le> 255 \<Longrightarrow> raw (response (awaiting a bs)) = bs @ replicate (255 - length bs) 0"
  "length bs \<le> 255 \<Longrightarrow> raw_length (response (awaiting a bs)) = of_nat (length bs)"
  by (simp_all add: awaiting_def vmc96_send_raw_message_def ftdi_usb_purge_buffers_def
      ftdi_write_data_def ftdi_read_data_def Let_def fresh_session_def zero_message_def
      VMC96_MESSAGE_MAX_LEN_def)

theorem bad_start_byte_witness:
  "VMC96_wf (awaiting 0x30 [0x00, 0x30, 0x05, 0x00, 0x05]) \<and>
   addressed (id_controller (message (awaiting 0x30 [0x00, 0x30, 0x05, 0x00, 0x05]))) \<and>
   raw (response (awaiting 0x30 [0x00, 0x30, 0x05, 0x00, 0x05])) ! 0 \<noteq> VMC96_MESSAGE_STX \<and>
   map_option fst (vmc96_parse_raw_response x86 (awaiting 0x30 [0x00, 0x30, 0x05, 0x00, 0x05]))
     = Some VMC96_ERROR_RESPONSE_MALFORMED"
proof -
  let ?s = "awaiting 0x30 [0x00, 0x30, 0x05, 0x00, 0x05]"
  have wf: "VMC96_wf ?s" by (rule awaiting_wf)
  have ad: "addressed (id_controller (message ?s))"
    by (simp add: awaiting_message addressed_def VMC96_CONTROLLER_MOTOR_ARRAY_def)
  have r: "5 \<le> unat (raw_length (response ?s))" "4 \<le> unat (raw (response ?s) ! 2)"
    "unat (raw (response ?s) ! 2) \<le> 254" "raw (response ?s) ! 0 \<noteq> VMC96_MESSAGE_STX"
    by (simp_all add: awaiting_raw VMC96_MESSAGE_STX_def)
  from bad_start_byte_malformed[OF wf ad r, of x86] wf ad r(4) show ?thesis by auto
qed

theorem bad_start_byte_counterexample:
  "hd [0x00, 0x30, 0x04, 0x34 :: u8] \<noteq> VMC96_MESSAGE_STX \<and>
   map_option fst (vmc96_motor_ping x86 (fresh_session [0x00, 0x30, 0x04, 0x34]))
     = Some VMC96_ERROR_RESPONSE_INVALID_LENGTH \<and>
   hd [0x00, 0x30, 0x03, 0x00, 0x33 :: u8] \<noteq> VMC96_MESSAGE_STX \<and>
   vmc96_motor_ping x86 (fresh_session [0x00, 0x30, 0x03, 0x00, 0x33]) = None"
  by code_simp

theorem declared_length_witness:
  "VMC96_wf (awaiting 0x30 [0x35, 0x30, 0x06, 0x00, 0x03]) \<and>
   addressed (id_controller (message (awaiting 0x30 [0x35, 0x30, 0x06, 0x00, 0x03]))) \<and>
   raw (response (awaiting 0x30 [0x35, 0x30, 0x06, 0x00, 0x03])) ! 2
     \<noteq> raw_length (response (awaiting 0x30 [0x35, 0x30, 0x06, 0x00, 0x03])) \<and>
   map_option fst (vmc96_parse_raw_response x86 (awaiting 0x30 [0x35, 0x30, 0x06, 0x00, 0x03]))
     = Some VMC96_ERROR_RESPONSE_INVALID_LENGTH"
proof -
  let ?s = "awaiting 0x30 [0x35, 0x30, 0x06, 0x00, 0x03]"
  have wf: "VMC96_wf ?s" by (rule awaiting_wf)
  have ad: "addressed (id_controller (message ?s))"
    by (simp add: awaiting_message addressed_def VMC96_CONTROLLER_MOTOR_ARRAY_def)
  have ne: "raw (response ?s) ! 2 \<noteq> raw_length (response ?s)"
    by (simp add: awaiting_raw)
  have r: "unat (raw_length (response ?s)) < 5 \<or>
         (raw (response ?s) ! 0 = VMC96_MESSAGE_STX \<and>
          raw (response ?s) ! 1 = id_controller (message ?s) \<and>
          4 \<le> unat (raw (response ?s) ! 2) \<and> unat (raw (response ?s) ! 2) \<le> 254)"
    by (simp add: awaiting_raw awaiting_message VMC96_MESSAGE_STX_def)
  from declared_length_mismatch_invalid_length[OF wf ad ne r, of x86] wf ad ne show ?thesis by auto
qed

theorem declared_length_counterexample:
  "[0x00, 0x30, 0x06, 0x00, 0x36 :: u8] ! 2 \<noteq> of_nat (length [0x00, 0x30, 0x06, 0x00, 0x36 :: u8]) \<and>
   map_option fst (vmc96_motor_ping x86 (fresh_session [0x00, 0x30, 0x06, 0x00, 0x36]))
     = Some VMC96_ERROR_RESPONSE_MALFORMED \<and>
   [0x35, 0x26, 0x06, 0x00, 0x15 :: u8] ! 2 \<noteq> of_nat (length [0x35, 0x26, 0x06, 0x00, 0x15 :: u8]) \<and>
   map_option fst (vmc96_motor_ping x86 (fresh_session [0x35, 0x26, 0x06, 0x00, 0x15]))
     = Some VMC96_ERROR_RESPONSE_INVALID_SOURCE"
  by code_simp

lemma frame_last_butlast:
  assumes "1 \<le> n" and "n \<le> length xs"
  shows "last (take n xs) = xs ! (n - 1)" and "butlast (take n xs) = take (n - 1) xs"
proof -
  from assms obtain m where n: "n = Suc m" by (cases n) auto
  with assms have "take n xs = take m xs @ [xs ! m]" by (simp add: take_Suc_conv_app_nth)
  then show "last (take n xs) = xs ! (n - 1)" and "butlast (take n xs) = take (n - 1) xs"
    by (simp_all add: n)
qed

text \<open>
  Where \<^verbatim>\<open>char\<close> is unsigned and fewer than 255 bytes were received, the checksum test
  is the one the wire format asks for, and a response that passes leaves its bytes from
  offset 3 up to the checksum as the payload.
\<close>

lemma checksum_check_unsigned_char:
  assumes wf: "VMC96_wf s" and ad: "addressed (id_controller (message s))"
    and n5: "5 \<le> unat (raw_length (response s))" and n254: "unat (raw_length (response s)) \<le> 254"
    and stx: "raw (response s) ! 0 = VMC96_MESSAGE_STX"
    and src: "raw (response s) ! 1 = id_controller (message s)"
    and len: "raw (response s) ! 2 = raw_length (response s)"
    and us: "\<not> CHAR_IS_SIGNED pf"
  shows "\<exists>s'. vmc96_parse_raw_response pf s =
            Some (if last (frame (response s)) \<noteq> xor_of_bytes (butlast (frame (response s)))
                  then VMC96_ERROR_RESPONSE_INVALID_CHECKSUM else VMC96_SUCCESS, s') \<and>
           payload (response s') = butlast (drop 3 (frame (response s))) \<and>
           unat (data_length (response s')) = unat (raw (response s) ! 2) - 4"
proof -
  let ?r = "response s"
  let ?n = "unat (raw_length ?r)"
  have lr: "length (raw ?r) = 255" and ld: "length (data ?r) = 250"
    using wf by (simp_all add: VMC96_wf_def VMC96_MESSAGE_MAX_LEN_def VMC96_MESSAGE_DATA_MAX_LEN_def)
  have dl: "unat (raw_length ?r - 4) = ?n - 4"
    using n5 by (simp add: unat_sub word_le_nat_alt)
  define d where "d = take (?n - 4) (drop 3 (raw ?r)) @ drop (?n - 4) (data ?r)"
  define s' where
    "s' = s\<lparr>response := ?r\<lparr>id_controller := raw ?r ! 1, data_length := raw_length ?r - 4, data := d\<rparr>\<rparr>"
  have cp: "memcpy (data ?r) 0 (raw ?r) 3 (unat (raw_length ?r - 4)) = Some d"
    using n5 n254 lr ld by (auto simp: memcpy_def dl d_def)
  have la: "last (frame ?r) = raw ?r ! (?n - 1)" and bl: "butlast (frame ?r) = take (?n - 1) (raw ?r)"
    unfolding frame_def using n5 n254 lr by (simp_all add: frame_last_butlast)
  have ck: "vmc96_calculate_checksum pf (raw ?r) (?n - 1) = uint (xor_of_bytes (butlast (frame ?r)))"
    using us by (simp add: vmc96_calculate_checksum_def char_value_def xor_loop_xor_of_bytes bl)
  have pl: "take (?n - 4) d = butlast (drop 3 (frame ?r))"
  proof -
    have "length (take (?n - 4) (drop 3 (raw ?r))) = ?n - 4" using n5 n254 lr by simp
    then have "take (?n - 4) d = take (?n - 4) (drop 3 (raw ?r))" by (simp add: d_def)
    also have "\<dots> = take (?n - 1 - 3) (drop 3 (raw ?r))" by simp
    also have "\<dots> = drop 3 (take (?n - 1) (raw ?r))" using n5 by (simp add: drop_take)
    also have "\<dots> = drop 3 (butlast (frame ?r))" by (simp only: bl)
    finally show ?thesis by (simp add: butlast_drop)
  qed
  have cmp: "(uint (raw ?r ! (?n - 1)) \<noteq> uint (xor_of_bytes (butlast (frame ?r))))
           = (last (frame ?r) \<noteq> xor_of_bytes (butlast (frame ?r)))"
    by (simp only: la word_uint_eq_iff)
  have pr: "vmc96_parse_raw_response pf s =
      Some (if last (frame ?r) \<noteq> xor_of_bytes (butlast (frame ?r))
            then VMC96_ERROR_RESPONSE_INVALID_CHECKSUM else VMC96_SUCCESS, s')"
    unfolding parse_addressed[OF ad] Let_def len cp ck cmp s'_def
    using n5 stx src by simp
  have "payload (response s') = butlast (drop 3 (frame ?r))"
    by (simp add: payload_def s'_def dl pl)
  moreover have "unat (data_length (response s')) = unat (raw ?r ! 2) - 4"
    by (simp add: s'_def dl len)
  ultimately show ?thesis using pr by blast
qed

text \<open>
  Claim C1. The claim asks that a response which passes the checks of length, start byte,
  address and declared length is rejected for its checksum exactly when its last byte
  differs from the XOR of the bytes before it. Two inputs on which the code does
  otherwise: where \<^verbatim>\<open>char\<close> is signed, the response \<open>35 30 05 80 80\<close>, whose last byte is
  that XOR, is rejected with \<open>VMC96_ERROR_RESPONSE_INVALID_CHECKSUM\<close> (with an unsigned
  \<^verbatim>\<open>char\<close> it is accepted), and so is the status response with the payload
  \<open>10 80 11 22\<close>; and for a response of 255 bytes the copy of the 251 payload
  bytes into \<^verbatim>\<open>data[250]\<close> leaves the array.
\<close>

theorem checksum_check_signed_char:
  "last [0x35, 0x30, 0x05, 0x80, 0x80] = xor_of_bytes (butlast [0x35, 0x30, 0x05, 0x80, 0x80]) \<and>
   map_option fst (vmc96_motor_ping x86 (fresh_session [0x35, 0x30, 0x05, 0x80, 0x80]))
     = Some VMC96_ERROR_RESPONSE_INVALID_CHECKSUM \<and>
   map_option fst (vmc96_motor_ping arm (fresh_session [0x35, 0x30, 0x05, 0x80, 0x80]))
     = Some VMC96_SUCCESS \<and>
   last status_reply = xor_of_bytes (butlast status_reply) \<and>
   map_option fst (vmc96_motor_get_status x86 (fresh_session status_reply) sample_status)
     = Some VMC96_ERROR_RESPONSE_INVALID_CHECKSUM \<and>
   length (0x35 # 0x30 # 0xFF # replicate 251 0 @ [0xFA :: u8]) = 255 \<and>
   last (0x35 # 0x30 # 0xFF # replicate 251 0 @ [0xFA])
     = xor_of_bytes (butlast (0x35 # 0x30 # 0xFF # replicate 251 0 @ [0xFA])) \<and>
   vmc96_motor_ping arm (fresh_session (0x35 # 0x30 # 0xFF # replicate 251 0 @ [0xFA])) = None"
  by code_simp

subsection \<open>Decoded results\<close>

text \<open>
  Claim C3, amended. When one of the four operations with an output parameter returns an
  error, the version string and the opto-line value of the caller are as they were. The
  status struct of \<open>vmc96_motor_get_status\<close> is as it was when the exchange itself returned
  the error; when the exchange succeeded and the first payload byte is not the
  status-request code, the operation returns \<open>VMC96_ERROR_RESPONSE_INVALID_SOURCE\<close> and the
  struct has been set to zero (none of the response is decoded into it).
\<close>

theorem errors_leave_outputs:
  "(vmc96_relay_get_version pf s rid version = Some (ret, s', version') \<and> ret \<noteq> VMC96_SUCCESS
      \<longrightarrow> version' = version) \<and>
   (vmc96_motor_get_version pf s version = Some (ret, s', version') \<and> ret \<noteq> VMC96_SUCCESS
      \<longrightarrow> version' = version) \<and>
   (vmc96_motor_opto_line_status pf s opto = Some (ret, s', opto') \<and> ret \<noteq> VMC96_SUCCESS
      \<longrightarrow> opto' = opto) \<and>
   (vmc96_motor_get_status pf s status = Some (ret, s', status') \<and> ret \<noteq> VMC96_SUCCESS
      \<longrightarrow> (status' = status \<and>
             vmc96_send_message pf s VMC96_CONTROLLER_MOTOR_ARRAY
               VMC96_COMMAND_MOTOR_STATUS_REQUEST = Some (ret, s'))
          \<or> (status' = memset_status status \<and> ret = VMC96_ERROR_RESPONSE_INVALID_SOURCE \<and>
             vmc96_send_message pf s VMC96_CONTROLLER_MOTOR_ARRAY
               VMC96_COMMAND_MOTOR_STATUS_REQUEST = Some (VMC96_SUCCESS, s')))"
proof (intro conjI impI)
  assume "vmc96_relay_get_version pf s rid version = Some (ret, s', version') \<and> ret \<noteq> VMC96_SUCCESS"
  then show "version' = version"
    by (auto simp: vmc96_relay_get_version_def split: option.splits if_splits)
next
  assume "vmc96_motor_get_version pf s version = Some (ret, s', version') \<and> ret \<noteq> VMC96_SUCCESS"
  then show "version' = version"
    by (auto simp: vmc96_motor_get_version_def split: option.splits if_splits)
next
  assume "vmc96_motor_opto_line_status pf s opto = Some (ret, s', opto') \<and> ret \<noteq> VMC96_SUCCESS"
  then show "opto' = opto"
    by (auto simp: vmc96_motor_opto_line_status_def Let_def split: option.splits if_splits)
next
  assume "vmc96_motor_get_status pf s status = Some (ret, s', status') \<and> ret \<noteq> VMC96_SUCCESS"
  then show "(status' = status \<and>
             vmc96_send_message pf s VMC96_CONTROLLER_MOTOR_ARRAY
               VMC96_COMMAND_MOTOR_STATUS_REQUEST = Some (ret, s'))
          \<or> (status' = memset_status status \<and> ret = VMC96_ERROR_RESPONSE_INVALID_SOURCE \<and>
             vmc96_send_message pf s VMC96_CONTROLLER_MOTOR_ARRAY
               VMC96_COMMAND_MOTOR_STATUS_REQUEST = Some (VMC96_SUCCESS, s'))"
    by (auto simp: vmc96_motor_get_status_def Let_def split: option.splits if_splits)
qed

theorem errors_leave_outputs_counterexample:
  "map_option fst (vmc96_motor_get_status x86 (fresh_session [0x35, 0x30, 0x06, 0x11, 0x00, 0x12])
       sample_status) = Some VMC96_ERROR_RESPONSE_INVALID_SOURCE \<and>
   map_option (current_ma \<circ> snd \<circ> snd)
     (vmc96_motor_get_status x86 (fresh_session [0x35, 0x30, 0x06, 0x11, 0x00, 0x12])
       sample_status) = Some 0 \<and>
   map_option (motors \<circ> snd \<circ> snd)
     (vmc96_motor_get_status x86 (fresh_session [0x35, 0x30, 0x06, 0x11, 0x00, 0x12])
       sample_status) = Some [\<lparr>row = 0, col = 0\<rparr>, \<lparr>row = 0, col = 0\<rparr>] \<and>
   current_ma sample_status = 120 \<and>
   motors sample_status = [\<lparr>row = 2, col = 3\<rparr>, \<lparr>row = 0, col = 0\<rparr>]"
  by code_simp

theorem errors_leave_outputs_witness:
  "map_option fst (vmc96_relay_get_version x86 (fresh_session [0x35, 0x26]) 0 [0x41, 0x42, 0x00])
     = Some VMC96_ERROR_RESPONSE_INVALID_LENGTH \<and>
   map_option (snd \<circ> snd) (vmc96_relay_get_version x86 (fresh_session [0x35, 0x26]) 0 [0x41, 0x42, 0x00])
     = Some [0x41, 0x42, 0x00] \<and>
   map_option fst (vmc96_motor_get_version x86 (fresh_session [0x35, 0x30, 0x06, 0x02, 0x56, 0x00]) [0x41, 0x42, 0x00])
     = Some VMC96_ERROR_RESPONSE_INVALID_CHECKSUM \<and>
   map_option (snd \<circ> snd) (vmc96_motor_get_version x86 (fresh_session [0x35, 0x30, 0x06, 0x02, 0x56, 0x00]) [0x41, 0x42, 0x00])
     = Some [0x41, 0x42, 0x00] \<and>
   map_option fst (vmc96_motor_opto_line_status x86 (fresh_session [0x35, 0x26, 0x05, 0x15, 0x03]) [1, 2, 3, 4])
     = Some VMC96_ERROR_RESPONSE_INVALID_SOURCE \<and>
   map_option (snd \<circ> snd) (vmc96_motor_opto_line_status x86 (fresh_session [0x35, 0x26, 0x05, 0x15, 0x03]) [1, 2, 3, 4])
     = Some [1, 2, 3, 4] \<and>
   map_option fst (vmc96_motor_get_status x86 (fresh_session [0x00, 0x30, 0x05, 0x10, 0x25]) sample_status)
     = Some VMC96_ERROR_RESPONSE_MALFORMED \<and>
   map_option (snd \<circ> snd) (vmc96_motor_get_status x86 (fresh_session [0x00, 0x30, 0x05, 0x10, 0x25]) sample_status)
     = Some sample_status"
proof -
  let ?v = "[0x41, 0x42, 0x00] :: u8 list"
  have 1: "map_option fst (vmc96_relay_get_version x86 (fresh_session [0x35, 0x26]) 0 ?v)
     = Some VMC96_ERROR_RESPONSE_INVALID_LENGTH" by code_simp
  have 2: "map_option fst (vmc96_motor_get_version x86 (fresh_session [0x35, 0x30, 0x06, 0x02, 0x56, 0x00]) ?v)
     = Some VMC96_ERROR_RESPONSE_INVALID_CHECKSUM" by code_simp
  have 3: "map_option fst (vmc96_motor_opto_line_status x86 (fresh_session [0x35, 0x26, 0x05, 0x15, 0x03]) [1, 2, 3, 4])
     = Some VMC96_ERROR_RESPONSE_INVALID_SOURCE" by code_simp
  have 4: "map_option fst (vmc96_motor_get_status x86 (fresh_session [0x00, 0x30, 0x05, 0x10, 0x25]) sample_status)
     = Some VMC96_ERROR_RESPONSE_MALFORMED" by code_simp
  have 5: "vmc96_send_message x86 (fresh_session [0x00, 0x30, 0x05, 0x10, 0x25]) VMC96_CONTROLLER_MOTOR_ARRAY
               VMC96_COMMAND_MOTOR_STATUS_REQUEST \<noteq> Some (VMC96_SUCCESS, t)" for t
  proof -
    have "map_option fst (vmc96_send_message x86 (fresh_session [0x00, 0x30, 0x05, 0x10, 0x25]) VMC96_CONTROLLER_MOTOR_ARRAY
               VMC96_COMMAND_MOTOR_STATUS_REQUEST) = Some VMC96_ERROR_RESPONSE_MALFORMED" by code_simp
    then show ?thesis by auto
  qed
  from 1 obtain s1 v1 where a: "vmc96_relay_get_version x86 (fresh_session [0x35, 0x26]) 0 ?v
     = Some (VMC96_ERROR_RESPONSE_INVALID_LENGTH, s1, v1)" by auto
  from 2 obtain s2 v2 where b: "vmc96_motor_get_version x86 (fresh_session [0x35, 0x30, 0x06, 0x02, 0x56, 0x00]) ?v
     = Some (VMC96_ERROR_RESPONSE_INVALID_CHECKSUM, s2, v2)" by auto
  from 3 obtain s3 v3 where c: "vmc96_motor_opto_line_status x86 (fresh_session [0x35, 0x26, 0x05, 0x15, 0x03]) [1, 2, 3, 4]
     = Some (VMC96_ERROR_RESPONSE_INVALID_SOURCE, s3, v3)" by auto
  from 4 obtain s4 v4 where d: "vmc96_motor_get_status x86 (fresh_session [0x00, 0x30, 0x05, 0x10, 0x25]) sample_status
     = Some (VMC96_ERROR_RESPONSE_MALFORMED, s4, v4)" by auto
  have "v1 = ?v"
    using errors_leave_outputs[where pf = x86 and s = "fresh_session [0x35, 0x26]" and rid = 0
        and version = ?v and ret = VMC96_ERROR_RESPONSE_INVALID_LENGTH and s' = s1
        and version' = v1] a
    by simp
  moreover have "v2 = ?v"
    using errors_leave_outputs[where pf = x86
        and s = "fresh_session [0x35, 0x30, 0x06, 0x02, 0x56, 0x00]" and version = ?v
        and ret = VMC96_ERROR_RESPONSE_INVALID_CHECKSUM and s' = s2 and version' = v2] b
    by simp
  moreover have "v3 = [1, 2, 3, 4]"
    using errors_leave_outputs[where pf = x86
        and s = "fresh_session [0x35, 0x26, 0x05, 0x15, 0x03]" and opto = "[1, 2, 3, 4]"
        and ret = VMC96_ERROR_RESPONSE_INVALID_SOURCE and s' = s3 and opto' = v3] c
    by simp
  moreover have "v4 = sample_status"
    using errors_leave_outputs[where pf = x86
        and s = "fresh_session [0x00, 0x30, 0x05, 0x10, 0x25]" and status = sample_status
        and ret = VMC96_ERROR_RESPONSE_MALFORMED and s' = s4 and status' = v4] d 5
    by simp
  ultimately show ?thesis using a b c d by simp
qed






end
